theory Spec2Isabelle
  imports Main "HOL-Library.Char_ord" "HOL-Library.List_Lexorder"
begin

section \<open>Strings of the engine\<close>

text \<open>
  \<open>FString\<close> is modelled as \<open>string\<close>. The members of \<open>FString\<close> and
  \<open>TArray\<close> that \<open>ChessGameStateComponent.cpp\<close> calls belong to the engine, not to the
  repository; they are written out here with the behaviour the engine documents.
  \<open>FString::ToLower\<close> lowers the letters \<open>A\<close> to \<open>Z\<close>, \<open>TrimStartAndEnd\<close> strips
  white space at both ends, \<open>Left\<close> and \<open>Mid\<close> clamp to the length of the string.
\<close>

definition FChar_ToLower :: "char \<Rightarrow> char" where
  "FChar_ToLower c =
     (if CHR ''A'' \<le> c \<and> c \<le> CHR ''Z'' then char_of (of_char c + (32::nat)) else c)"

definition ToLower :: "string \<Rightarrow> string" where
  "ToLower s = map FChar_ToLower s"

definition FChar_IsWhitespace :: "char \<Rightarrow> bool" where
  "FChar_IsWhitespace c =
     (c = CHR '' '' \<or> (CHR 0x09 \<le> c \<and> c \<le> CHR 0x0D))"

definition TrimStartAndEnd :: "string \<Rightarrow> string" where
  "TrimStartAndEnd s =
     rev (dropWhile FChar_IsWhitespace (rev (dropWhile FChar_IsWhitespace s)))"

definition Left :: "nat \<Rightarrow> string \<Rightarrow> string" where
  "Left n s = take n s"

definition Mid :: "nat \<Rightarrow> nat \<Rightarrow> string \<Rightarrow> string" where
  "Mid start n s = take n (drop start s)"

text \<open>
  \<open>StartsWith(Prefix, ESearchCase::CaseSensitive)\<close>: an empty prefix never matches.
\<close>

definition StartsWith :: "string \<Rightarrow> string \<Rightarrow> bool" where
  "StartsWith Prefix s = (Prefix \<noteq> [] \<and> take (length Prefix) s = Prefix)"

text \<open>
  \<open>operator==\<close> and \<open>operator<\<close> of \<open>FString\<close> ignore the case of letters (both go
  through \<open>Stricmp\<close>); \<open>TArray::AddUnique\<close> uses the first and \<open>TArray::Sort\<close> the second.
  \<open>Equals(_, ESearchCase::CaseSensitive)\<close> is plain equality of the characters. An array
  built with \<open>AddUnique\<close> holds no two strings that \<open>operator<\<close> fails to separate, so
  the result of \<open>Sort\<close> on it does not depend on the sorting algorithm.
\<close>

definition FStringEq :: "string \<Rightarrow> string \<Rightarrow> bool" where
  "FStringEq a b = (ToLower a = ToLower b)"

definition FStringLess :: "string \<Rightarrow> string \<Rightarrow> bool" where
  "FStringLess a b = (ToLower a < ToLower b)"

definition AddUnique :: "string list \<Rightarrow> string \<Rightarrow> string list" where
  "AddUnique xs x = (if list_ex (\<lambda>y. FStringEq y x) xs then xs else xs @ [x])"

definition Sort :: "string list \<Rightarrow> string list" where
  "Sort xs = sort_key ToLower xs"

section \<open>ChessTypes.h and ChessGameStateComponent.h\<close>

record FChessStatePayload =
  Fen :: string
  Turn :: string
  SelectedSquare :: string
  LegalTargets :: "string list"
  bIsGameOver :: bool
  StatusText :: string
  ScoreText :: string
  LegalMovesUci :: "string list"

text \<open>A default-constructed \<open>FChessStatePayload\<close>.\<close>

definition DefaultPayload :: FChessStatePayload where
  "DefaultPayload =
     \<lparr>Fen = [], Turn = [], SelectedSquare = [], LegalTargets = [], bIsGameOver = False,
      StatusText = [], ScoreText = [], LegalMovesUci = []\<rparr>"

text \<open>
  The failures the component reports. The source reports each as a message in
  \<open>OutError\<close>; every message is a non-empty text:
  \<^item> \<open>ScriptNotFound p\<close>: "Export script not found at 'p'. ..."
  \<^item> \<open>ExporterFailed code err out\<close>: "Failed to run exporter (code=..). StdErr: .. StdOut: .."
  \<^item> \<open>ReadFailed p\<close>: "Failed to read output JSON: p"
  \<^item> \<open>JsonParseFailed\<close>: "Failed to parse JSON payload."
  \<^item> \<open>MissingFields\<close>: "Payload is missing one or more required fields."
  \<^item> \<open>NoSelection\<close>: "No selected square."
  \<^item> \<open>InvalidTarget\<close>: "Target square is invalid."
  \<^item> \<open>IllegalMove p\<close>: "Illegal move: p"
\<close>

datatype error =
    ScriptNotFound string
  | ExporterFailed int string string
  | ReadFailed string
  | JsonParseFailed
  | MissingFields
  | NoSelection
  | InvalidTarget
  | IllegalMove string

text \<open>
  What the component does to the world outside its fields, in order: a broadcast of
  \<open>OnStateChanged\<close>, the creation of the output directory, a run of the exporter
  (executable, parameters, working directory) and a warning in the log.
\<close>

datatype effect =
    Broadcast
  | MakeDirectory string
  | ExecProcessCall string string string
  | LogWarning error

record UChessGameStateComponent =
  CurrentState :: FChessStatePayload
  MoveHistoryUci :: "string list"
  StartFen :: string
  PythonExecutable :: string
  ExportScriptPath :: string
  WorkingDirectory :: string
  Effects :: "effect list"

text \<open>The component as its constructor and the member initialisers leave it.\<close>

definition Constructed :: UChessGameStateComponent where
  "Constructed =
     \<lparr>CurrentState = DefaultPayload, MoveHistoryUci = [],
      StartFen = ''rnbqkbnr/pppppppp/8/8/8/8/PPPPPPPP/RNBQKBNR w KQkq - 0 1'',
      PythonExecutable = ''python3'', ExportScriptPath = [], WorkingDirectory = [],
      Effects = []\<rparr>"

section \<open>The platform and the JSON library\<close>

record FExecResult =
  bExecOk :: bool
  ReturnCode :: int
  StdOut :: string
  StdErr :: string

text \<open>
  The file system, the process launcher and the JSON library of the engine, as one call
  of an operation meets them. \<open>'o\<close> is the type of JSON objects and \<open>'v\<close> the type of
  JSON values. \<open>Deserialize\<close> is \<open>None\<close> when \<open>FJsonSerializer::Deserialize\<close> fails or
  yields no valid root object; a \<open>TryGet...\<close> is \<open>None\<close> when the engine's function
  returns false and leaves its out-parameter alone; an array item is \<open>None\<close> when its
  pointer is not valid.
\<close>

record ('o, 'v) Platform =
  FileExists :: "string \<Rightarrow> bool"
  ConvertRelativePathToFull :: "string \<Rightarrow> string"
  PathsCombine :: "string \<Rightarrow> string \<Rightarrow> string"
  ProjectDir :: string
  ProjectSavedDir :: string
  ExecProcess :: "string \<Rightarrow> string \<Rightarrow> string \<Rightarrow> FExecResult"
  LoadFileToString :: "string \<Rightarrow> string option"
  Deserialize :: "string \<Rightarrow> 'o option"
  TryGetStringField :: "'o \<Rightarrow> string \<Rightarrow> string option"
  TryGetBoolField :: "'o \<Rightarrow> string \<Rightarrow> bool option"
  TryGetArrayField :: "'o \<Rightarrow> string \<Rightarrow> 'v option list option"
  TryGetString :: "'v \<Rightarrow> string option"

section \<open>ChessGameStateComponent.cpp\<close>

text \<open>\<open>CHR 0x22\<close> is the double quote and \<open>CHR 0x5C\<close> the backslash.\<close>

definition QuoteArg :: "string \<Rightarrow> string" where
  "QuoteArg In =
     [CHR 0x22] @ concat (map (\<lambda>c. if c = CHR 0x22 then [CHR 0x5C, CHR 0x22] else [c]) In)
     @ [CHR 0x22]"

definition IsSquareValid :: "string \<Rightarrow> bool" where
  "IsSquareValid Square =
     (if length Square \<noteq> 2 then False
      else let File = Square ! 0; Rank = Square ! 1
           in CHR ''a'' \<le> File \<and> File \<le> CHR ''h'' \<and> CHR ''1'' \<le> Rank \<and> Rank \<le> CHR ''8'')"

definition NormalizeSquare :: "string \<Rightarrow> string" where
  "NormalizeSquare Square = TrimStartAndEnd (ToLower Square)"

fun BuildMovesCsv :: "string list \<Rightarrow> string" where
  "BuildMovesCsv [] = []"
| "BuildMovesCsv [m] = m"
| "BuildMovesCsv (m # ms) = m @ '','' @ BuildMovesCsv ms"

text \<open>The loop over an array of JSON values that keeps the valid string items.\<close>

fun CollectStrings :: "('o, 'v) Platform \<Rightarrow> 'v option list \<Rightarrow> string list \<Rightarrow> string list" where
  "CollectStrings P [] Out = Out"
| "CollectStrings P (Item # Items) Out =
     (case Item of
        None \<Rightarrow> CollectStrings P Items Out
      | Some v \<Rightarrow>
          (case TryGetString P v of
             None \<Rightarrow> CollectStrings P Items Out
           | Some Value \<Rightarrow> CollectStrings P Items (Out @ [Value])))"

text \<open>
  \<open>ParsePayloadJson\<close> fills \<open>OutState\<close>: the five required fields in the order of the
  source's \<open>||\<close> chain, then the optional fields, each left as it was when absent.
  On failure the source leaves \<open>OutState\<close> partly written; its only caller passes a
  local and drops it on failure, so the model returns the error alone.
\<close>

definition ParsePayloadJson ::
  "('o, 'v) Platform \<Rightarrow> string \<Rightarrow> FChessStatePayload \<Rightarrow> error + FChessStatePayload" where
  "ParsePayloadJson P Json OutState =
     (case Deserialize P Json of
        None \<Rightarrow> Inl JsonParseFailed
      | Some RootObj \<Rightarrow>
     (case TryGetStringField P RootObj ''fen'' of
        None \<Rightarrow> Inl MissingFields
      | Some fen \<Rightarrow>
     (case TryGetStringField P RootObj ''turn'' of
        None \<Rightarrow> Inl MissingFields
      | Some turn \<Rightarrow>
     (case TryGetBoolField P RootObj ''is_game_over'' of
        None \<Rightarrow> Inl MissingFields
      | Some over \<Rightarrow>
     (case TryGetStringField P RootObj ''status_text'' of
        None \<Rightarrow> Inl MissingFields
      | Some status \<Rightarrow>
     (case TryGetStringField P RootObj ''score_text'' of
        None \<Rightarrow> Inl MissingFields
      | Some score \<Rightarrow>
        let S1 = OutState\<lparr>Fen := fen, Turn := turn, bIsGameOver := over,
                           StatusText := status, ScoreText := score\<rparr>;
            S2 = (case TryGetStringField P RootObj ''selected_square'' of
                    None \<Rightarrow> S1
                  | Some sq \<Rightarrow> S1\<lparr>SelectedSquare := sq\<rparr>);
            S3 = (case TryGetArrayField P RootObj ''legal_targets'' of
                    None \<Rightarrow> S2
                  | Some Items \<Rightarrow> S2\<lparr>LegalTargets := CollectStrings P Items []\<rparr>);
            S4 = (case TryGetArrayField P RootObj ''legal_moves_uci'' of
                    None \<Rightarrow> S3
                  | Some Items \<Rightarrow> S3\<lparr>LegalMovesUci := CollectStrings P Items []\<rparr>)
        in Inr S4))))))"

text \<open>
  The locals of \<open>RefreshState\<close>, each as a function of what the source computes it
  from.
\<close>

definition PythonExe :: "UChessGameStateComponent \<Rightarrow> string" where
  "PythonExe c = (if PythonExecutable c = [] then ''python3'' else PythonExecutable c)"

definition ScriptPath :: "('o, 'v) Platform \<Rightarrow> UChessGameStateComponent \<Rightarrow> string" where
  "ScriptPath P c =
     (if ExportScriptPath c \<noteq> [] then ConvertRelativePathToFull P (ExportScriptPath c)
      else ConvertRelativePathToFull P (PathsCombine P (ProjectDir P) ''../export_state.py''))"

definition WorkingDir :: "('o, 'v) Platform \<Rightarrow> UChessGameStateComponent \<Rightarrow> string" where
  "WorkingDir P c =
     (if WorkingDirectory c = []
      then ConvertRelativePathToFull P (PathsCombine P (ProjectDir P) ''../..'')
      else WorkingDirectory c)"

definition OutputDir :: "('o, 'v) Platform \<Rightarrow> string" where
  "OutputDir P = PathsCombine P (ProjectSavedDir P) ''Chess''"

definition OutputPath :: "('o, 'v) Platform \<Rightarrow> string" where
  "OutputPath P = PathsCombine P (OutputDir P) ''state_payload.json''"

definition Params :: "('o, 'v) Platform \<Rightarrow> UChessGameStateComponent \<Rightarrow> string" where
  "Params P c =
     QuoteArg (ScriptPath P c) @ '' --fen '' @ QuoteArg (StartFen c) @ '' --moves ''
     @ QuoteArg (BuildMovesCsv (MoveHistoryUci c)) @ '' --output '' @ QuoteArg (OutputPath P)"

text \<open>
  \<open>RefreshState\<close> returns \<open>Inl\<close> the error where the source returns false with
  \<open>OutError\<close> set, and \<open>Inr ()\<close> where it returns true. \<open>NextState\<close> starts as a
  default-constructed payload.
\<close>

definition RefreshState ::
  "('o, 'v) Platform \<Rightarrow> UChessGameStateComponent \<Rightarrow> (error + unit) \<times> UChessGameStateComponent" where
  "RefreshState P c =
     (if \<not> FileExists P (ScriptPath P c) then (Inl (ScriptNotFound (ScriptPath P c)), c)
      else
        let c1 = c\<lparr>Effects := Effects c @
                   [MakeDirectory (OutputDir P),
                    ExecProcessCall (PythonExe c) (Params P c) (WorkingDir P c)]\<rparr>;
            Res = ExecProcess P (PythonExe c) (Params P c) (WorkingDir P c)
        in if \<not> bExecOk Res \<or> ReturnCode Res \<noteq> 0
           then (Inl (ExporterFailed (ReturnCode Res) (StdErr Res) (StdOut Res)), c1)
           else
             (case LoadFileToString P (OutputPath P) of
                None \<Rightarrow> (Inl (ReadFailed (OutputPath P)), c1)
              | Some Json \<Rightarrow>
                  (case ParsePayloadJson P Json DefaultPayload of
                     Inl e \<Rightarrow> (Inl e, c1)
                   | Inr NextState \<Rightarrow>
                       (Inr (), c1\<lparr>CurrentState := NextState,
                                   Effects := Effects c1 @ [Broadcast]\<rparr>))))"

text \<open>
  \<open>ResetMatch\<close> logs when \<open>RefreshState\<close> fails with a non-empty message, which every
  failure of \<open>RefreshState\<close> has.
\<close>

definition ResetMatch :: "('o, 'v) Platform \<Rightarrow> UChessGameStateComponent \<Rightarrow> UChessGameStateComponent" where
  "ResetMatch P c =
     (let c1 = c\<lparr>MoveHistoryUci := []\<rparr>
      in case RefreshState P c1 of
           (Inl e, c2) \<Rightarrow> c2\<lparr>Effects := Effects c2 @ [LogWarning e]\<rparr>
         | (Inr _, c2) \<Rightarrow> c2)"

text \<open>The loop of \<open>SelectSquare\<close> over \<open>LegalMovesUci\<close>, with \<open>NextTargets\<close> as accumulator.\<close>

fun CollectTargets :: "string \<Rightarrow> string list \<Rightarrow> string list \<Rightarrow> string list" where
  "CollectTargets Normalized [] NextTargets = NextTargets"
| "CollectTargets Normalized (Uci # Rest) NextTargets =
     (if length Uci < 4 then CollectTargets Normalized Rest NextTargets
      else if Left 2 Uci = Normalized
           then CollectTargets Normalized Rest (AddUnique NextTargets (Mid 2 2 Uci))
           else CollectTargets Normalized Rest NextTargets)"

definition SelectSquare :: "string \<Rightarrow> UChessGameStateComponent \<Rightarrow> bool \<times> UChessGameStateComponent" where
  "SelectSquare Square c =
     (let Normalized = NormalizeSquare Square
      in if \<not> IsSquareValid Normalized then (False, c)
         else
           let NextTargets = CollectTargets Normalized (LegalMovesUci (CurrentState c)) []
           in if NextTargets = []
              then (False, c\<lparr>CurrentState := (CurrentState c)\<lparr>SelectedSquare := [], LegalTargets := []\<rparr>,
                             Effects := Effects c @ [Broadcast]\<rparr>)
              else (True, c\<lparr>CurrentState := (CurrentState c)\<lparr>SelectedSquare := Normalized,
                                                             LegalTargets := Sort NextTargets\<rparr>,
                            Effects := Effects c @ [Broadcast]\<rparr>))"

text \<open>
  The loop of \<open>TryMoveSelectedTo\<close> over \<open>LegalMovesUci\<close>, with \<open>SelectedMove\<close> as
  accumulator; the \<open>break\<close> returns at once.
\<close>

fun ScanMoves :: "string \<Rightarrow> string list \<Rightarrow> string \<Rightarrow> string" where
  "ScanMoves Prefix [] SelectedMove = SelectedMove"
| "ScanMoves Prefix (Uci # Rest) SelectedMove =
     (if StartsWith Prefix Uci
      then if length Uci = 5 \<and> Uci ! 4 = CHR ''q'' then Uci
           else ScanMoves Prefix Rest (if SelectedMove = [] then Uci else SelectedMove)
      else ScanMoves Prefix Rest SelectedMove)"

text \<open>
  \<open>Pop\<close> removes the last entry; the array is not empty there, \<open>Add\<close> came just before
  and \<open>RefreshState\<close> does not write the history.
\<close>

definition TryMoveSelectedTo ::
  "('o, 'v) Platform \<Rightarrow> string \<Rightarrow> UChessGameStateComponent \<Rightarrow> (error + unit) \<times> UChessGameStateComponent" where
  "TryMoveSelectedTo P TargetSquare c =
     (let From = NormalizeSquare (SelectedSquare (CurrentState c));
          To = NormalizeSquare TargetSquare
      in if \<not> IsSquareValid From then (Inl NoSelection, c)
         else if \<not> IsSquareValid To then (Inl InvalidTarget, c)
         else
           let Prefix = From @ To;
               SelectedMove = ScanMoves Prefix (LegalMovesUci (CurrentState c)) []
           in if SelectedMove = [] then (Inl (IllegalMove Prefix), c)
              else
                (case RefreshState P (c\<lparr>MoveHistoryUci := MoveHistoryUci c @ [SelectedMove]\<rparr>) of
                   (Inl e, c2) \<Rightarrow> (Inl e, c2\<lparr>MoveHistoryUci := butlast (MoveHistoryUci c2)\<rparr>)
                 | (Inr _, c2) \<Rightarrow> (Inr (), c2)))"

section \<open>Observable effects\<close>

text \<open>
  How often the observers were notified, and how often the exporter was run.
\<close>

definition Notifications :: "UChessGameStateComponent \<Rightarrow> nat" where
  "Notifications c = length (filter (\<lambda>e. e = Broadcast) (Effects c))"

definition IsExecProcessCall :: "effect \<Rightarrow> bool" where
  "IsExecProcessCall e = (case e of ExecProcessCall exe params dir \<Rightarrow> True | _ \<Rightarrow> False)"

definition OracleCalls :: "UChessGameStateComponent \<Rightarrow> nat" where
  "OracleCalls c = length (filter IsExecProcessCall (Effects c))"

text \<open>
  The steps of \<open>RefreshState\<close> all go through: the script exists, the exporter runs
  and exits with 0, its output can be read and deserialised, and the five required
  fields are there.
\<close>

definition RefreshSteps :: "('o, 'v) Platform \<Rightarrow> UChessGameStateComponent \<Rightarrow> bool" where
  "RefreshSteps P c =
     (FileExists P (ScriptPath P c)
      \<and> bExecOk (ExecProcess P (PythonExe c) (Params P c) (WorkingDir P c))
      \<and> ReturnCode (ExecProcess P (PythonExe c) (Params P c) (WorkingDir P c)) = 0
      \<and> (case LoadFileToString P (OutputPath P) of
            None \<Rightarrow> False
          | Some Json \<Rightarrow>
              (case Deserialize P Json of
                 None \<Rightarrow> False
               | Some RootObj \<Rightarrow>
                   TryGetStringField P RootObj ''fen'' \<noteq> None
                   \<and> TryGetStringField P RootObj ''turn'' \<noteq> None
                   \<and> TryGetBoolField P RootObj ''is_game_over'' \<noteq> None
                   \<and> TryGetStringField P RootObj ''status_text'' \<noteq> None
                   \<and> TryGetStringField P RootObj ''score_text'' \<noteq> None)))"

section \<open>Sequences of operations\<close>

text \<open>
  The four operations of the component, each with the platform its call meets, and the
  component after a sequence of them.
\<close>

datatype ('o, 'v) operation =
    Refresh "('o, 'v) Platform"
  | Reset "('o, 'v) Platform"
  | Select string
  | TryMove "('o, 'v) Platform" string

fun Apply :: "('o, 'v) operation \<Rightarrow> UChessGameStateComponent \<Rightarrow> UChessGameStateComponent" where
  "Apply (Refresh P) c = snd (RefreshState P c)"
| "Apply (Reset P) c = ResetMatch P c"
| "Apply (Select Square) c = snd (SelectSquare Square c)"
| "Apply (TryMove P TargetSquare) c = snd (TryMoveSelectedTo P TargetSquare c)"

fun Run :: "('o, 'v) operation list \<Rightarrow> UChessGameStateComponent \<Rightarrow> UChessGameStateComponent" where
  "Run [] c = c"
| "Run (op # ops) c = Run ops (Apply op c)"

section \<open>Properties of a snapshot\<close>

text \<open>
  The second squares of the moves that leave \<open>Square\<close>, in list order. A move of fewer
  than four characters has no second square.
\<close>

definition SecondSquares :: "string \<Rightarrow> string list \<Rightarrow> string list" where
  "SecondSquares Square Moves =
     map (Mid 2 2) (filter (\<lambda>Uci. 4 \<le> length Uci \<and> Left 2 Uci = Square) Moves)"

text \<open>Selection and targets agree: the targets are exactly the second squares.\<close>

definition SelectionConsistent :: "FChessStatePayload \<Rightarrow> bool" where
  "SelectionConsistent S =
     ((SelectedSquare S \<noteq> [] \<longrightarrow>
         set (LegalTargets S) = set (SecondSquares (SelectedSquare S) (LegalMovesUci S)))
      \<and> (LegalTargets S = [] \<longrightarrow> SelectedSquare S = []))"

text \<open>
  The same up to the case of letters: every target is a second square, and every second
  square is equal to a target in the sense of \<open>operator==\<close>.
\<close>

definition SelectionConsistentFS :: "FChessStatePayload \<Rightarrow> bool" where
  "SelectionConsistentFS S =
     ((SelectedSquare S \<noteq> [] \<longrightarrow>
         set (LegalTargets S) \<subseteq> set (SecondSquares (SelectedSquare S) (LegalMovesUci S))
         \<and> (\<forall>t \<in> set (SecondSquares (SelectedSquare S) (LegalMovesUci S)).
               \<exists>u \<in> set (LegalTargets S). FStringEq u t))
      \<and> (LegalTargets S = [] \<longrightarrow> SelectedSquare S = []))"

text \<open>
  A snapshot whose selection, when there is one, is what \<open>SelectSquare\<close> stores on its
  success path for that square.
\<close>

definition SelectedBySelectSquare :: "FChessStatePayload \<Rightarrow> bool" where
  "SelectedBySelectSquare S =
     (SelectedSquare S = []
      \<or> (LegalTargets S = Sort (CollectTargets (SelectedSquare S) (LegalMovesUci S) [])
          \<and> LegalTargets S \<noteq> []))"

text \<open>
  A platform whose JSON documents carry no \<open>selected_square\<close> string, or an empty one,
  and an operation that meets such a platform.
\<close>

definition NoSelectionField :: "('o, 'v) Platform \<Rightarrow> bool" where
  "NoSelectionField P =
     (\<forall>Json RootObj. Deserialize P Json = Some RootObj \<longrightarrow>
        TryGetStringField P RootObj ''selected_square'' \<in> {None, Some []})"

fun NoSelectionFromOracle :: "('o, 'v) operation \<Rightarrow> bool" where
  "NoSelectionFromOracle (Refresh P) = NoSelectionField P"
| "NoSelectionFromOracle (Reset P) = NoSelectionField P"
| "NoSelectionFromOracle (Select Square) = True"
| "NoSelectionFromOracle (TryMove P TargetSquare) = NoSelectionField P"

section \<open>A sample platform\<close>

text \<open>
  A small JSON representation and a platform on which the script exists, the exporter
  runs and the output file deserialises to a given document. It is the concrete input
  of the examples below.
\<close>

datatype SampleJson = JString string | JBoolean bool | JArray "SampleJson list"

definition SampleGetString :: "SampleJson \<Rightarrow> string option" where
  "SampleGetString v = (case v of JString s \<Rightarrow> Some s | _ \<Rightarrow> None)"

definition SamplePlatform ::
  "(string \<times> SampleJson) list option \<Rightarrow> ((string \<times> SampleJson) list, SampleJson) Platform" where
  "SamplePlatform Doc =
     \<lparr>FileExists = (\<lambda>p. True),
      ConvertRelativePathToFull = (\<lambda>p. p),
      PathsCombine = (\<lambda>a b. a @ ''/'' @ b),
      ProjectDir = ''project'',
      ProjectSavedDir = ''saved'',
      ExecProcess = (\<lambda>exe params dir. \<lparr>bExecOk = True, ReturnCode = 0, StdOut = [], StdErr = []\<rparr>),
      LoadFileToString = (\<lambda>p. Some ''json''),
      Deserialize = (\<lambda>j. Doc),
      TryGetStringField = (\<lambda>obj k. case map_of obj k of Some (JString s) \<Rightarrow> Some s | _ \<Rightarrow> None),
      TryGetBoolField = (\<lambda>obj k. case map_of obj k of Some (JBoolean b) \<Rightarrow> Some b | _ \<Rightarrow> None),
      TryGetArrayField = (\<lambda>obj k. case map_of obj k of Some (JArray vs) \<Rightarrow> Some (map Some vs) | _ \<Rightarrow> None),
      TryGetString = SampleGetString\<rparr>"

text \<open>The required fields of a payload, and a payload with a list of legal moves.\<close>

definition RequiredFields :: "(string \<times> SampleJson) list" where
  "RequiredFields =
     [(''fen'', JString ''8/8/8/8/8/8/8/8 w - - 0 1''), (''turn'', JString ''white''),
      (''is_game_over'', JBoolean False), (''status_text'', JString ''White to move''),
      (''score_text'', JString ''0'')]"

definition SampleDoc :: "string list \<Rightarrow> (string \<times> SampleJson) list" where
  "SampleDoc Moves = RequiredFields @ [(''legal_moves_uci'', JArray (map JString Moves))]"

text \<open>The same platform with an exporter that exits with code 1.\<close>

definition FailingPlatform :: "((string \<times> SampleJson) list, SampleJson) Platform" where
  "FailingPlatform =
     (SamplePlatform None)\<lparr>ExecProcess :=
        (\<lambda>exe params dir. \<lparr>bExecOk = True, ReturnCode = 1, StdOut = [], StdErr = ''no board''\<rparr>)\<rparr>"

text \<open>A component with a given selection, targets and legal moves.\<close>

definition SampleComponent :: "string \<Rightarrow> string list \<Rightarrow> string list \<Rightarrow> UChessGameStateComponent" where
  "SampleComponent Sel Targets Moves =
     Constructed\<lparr>CurrentState := DefaultPayload\<lparr>SelectedSquare := Sel, LegalTargets := Targets,
                                                 LegalMovesUci := Moves\<rparr>\<rparr>"

section \<open>Lemmas about the operations\<close>

subsection \<open>Refreshing\<close>

lemma RefreshState_history [simp]:
  "MoveHistoryUci (snd (RefreshState P c)) = MoveHistoryUci c"
  by (simp add: RefreshState_def Let_def split: option.splits sum.splits)

lemma RefreshState_config [simp]:
  "StartFen (snd (RefreshState P c)) = StartFen c"
  "PythonExecutable (snd (RefreshState P c)) = PythonExecutable c"
  "ExportScriptPath (snd (RefreshState P c)) = ExportScriptPath c"
  "WorkingDirectory (snd (RefreshState P c)) = WorkingDirectory c"
  by (simp_all add: RefreshState_def Let_def split: option.splits sum.splits)

lemma RefreshState_Inl:
  "fst (RefreshState P c) = Inl e \<Longrightarrow>
     CurrentState (snd (RefreshState P c)) = CurrentState c
     \<and> Notifications (snd (RefreshState P c)) = Notifications c"
  by (auto simp: RefreshState_def Let_def Notifications_def split: option.splits sum.splits if_splits)

lemma ParsePayloadJson_isr_iff:
  "(\<not> isl (ParsePayloadJson P Json Out)) \<longleftrightarrow>
     (case Deserialize P Json of
        None \<Rightarrow> False
      | Some RootObj \<Rightarrow>
          TryGetStringField P RootObj ''fen'' \<noteq> None
          \<and> TryGetStringField P RootObj ''turn'' \<noteq> None
          \<and> TryGetBoolField P RootObj ''is_game_over'' \<noteq> None
          \<and> TryGetStringField P RootObj ''status_text'' \<noteq> None
          \<and> TryGetStringField P RootObj ''score_text'' \<noteq> None)"
  by (auto simp: ParsePayloadJson_def Let_def split: option.splits)

lemma RefreshState_ok_iff:
  "fst (RefreshState P c) = Inr () \<longleftrightarrow> RefreshSteps P c"
proof (cases "LoadFileToString P (OutputPath P)")
  case None
  then show ?thesis
    by (simp add: RefreshState_def RefreshSteps_def Let_def)
next
  case (Some Json)
  show ?thesis
    using ParsePayloadJson_isr_iff[of P Json DefaultPayload]
    by (cases "ParsePayloadJson P Json DefaultPayload")
       (simp_all add: RefreshState_def RefreshSteps_def Let_def Some)
qed

lemma RefreshState_Inr:
  "fst (RefreshState P c) = Inr u \<Longrightarrow>
     \<exists>Json NextState. LoadFileToString P (OutputPath P) = Some Json
       \<and> ParsePayloadJson P Json DefaultPayload = Inr NextState
       \<and> snd (RefreshState P c) = c\<lparr>CurrentState := NextState,
            Effects := Effects c @ [MakeDirectory (OutputDir P),
               ExecProcessCall (PythonExe c) (Params P c) (WorkingDir P c), Broadcast]\<rparr>"
  by (auto simp: RefreshState_def Let_def split: option.splits sum.splits if_splits)

lemma ParsePayloadJson_selected:
  assumes "ParsePayloadJson P Json DefaultPayload = Inr S"
  shows "\<exists>RootObj. Deserialize P Json = Some RootObj
     \<and> SelectedSquare S =
         (case TryGetStringField P RootObj ''selected_square'' of None \<Rightarrow> [] | Some sq \<Rightarrow> sq)"
  using assms
  by (auto simp: ParsePayloadJson_def Let_def DefaultPayload_def split: option.splits)

lemma ResetMatch_CurrentState:
  "CurrentState (ResetMatch P c) = CurrentState (snd (RefreshState P (c\<lparr>MoveHistoryUci := []\<rparr>)))"
  by (simp add: ResetMatch_def Let_def split: prod.splits sum.splits)

subsection \<open>Squares\<close>

lemma IsSquareValid_length: "IsSquareValid Square \<Longrightarrow> length Square = 2"
  by (simp add: IsSquareValid_def split: if_splits)

lemma IsSquareValid_iff:
  "IsSquareValid Square \<longleftrightarrow>
     (\<exists>File Rank. Square = [File, Rank] \<and> CHR ''a'' \<le> File \<and> File \<le> CHR ''h''
        \<and> CHR ''1'' \<le> Rank \<and> Rank \<le> CHR ''8'')"
proof (cases Square)
  case Nil
  then show ?thesis by (simp add: IsSquareValid_def)
next
  case (Cons File Rest)
  then show ?thesis by (cases Rest) (auto simp: IsSquareValid_def)
qed

lemma FChar_ToLower_square:
  assumes "CHR ''1'' \<le> c" and "c \<le> CHR ''8'' \<or> CHR ''a'' \<le> c"
  shows "FChar_ToLower c = c"
  using assms order_trans[of "CHR ''a''" c "CHR ''Z''"] order_trans[of "CHR ''A''" c "CHR ''8''"]
  by (auto simp: FChar_ToLower_def)

lemma FChar_IsWhitespace_square:
  assumes "CHR ''1'' \<le> c"
  shows "\<not> FChar_IsWhitespace c"
  using assms order_trans[of "CHR ''1''" c "CHR 0x0D"]
  by (auto simp: FChar_IsWhitespace_def)

lemma valid_square_normalized:
  assumes "IsSquareValid Square"
  shows "NormalizeSquare Square = Square"
proof -
  from assms obtain File Rank where
    s: "Square = [File, Rank]" and f: "CHR ''a'' \<le> File" and r: "CHR ''1'' \<le> Rank" "Rank \<le> CHR ''8''"
    by (auto simp: IsSquareValid_iff)
  from f have f1: "CHR ''1'' \<le> File"
    using order_trans[of "CHR ''1''" "CHR ''a''" File] by simp
  show ?thesis
    using f f1 r
    by (simp add: s NormalizeSquare_def ToLower_def TrimStartAndEnd_def
          FChar_ToLower_square FChar_IsWhitespace_square)
qed

subsection \<open>The scan for the move\<close>

lemma StartsWith_nonempty: "StartsWith Prefix Uci \<Longrightarrow> Uci \<noteq> []"
  unfolding StartsWith_def by (cases Uci) auto

lemma ScanMoves_acc: "Acc \<noteq> [] \<Longrightarrow> ScanMoves Prefix Moves Acc \<noteq> []"
  by (induction Moves arbitrary: Acc) (simp_all add: StartsWith_nonempty)

lemma ScanMoves_nonempty_iff:
  "ScanMoves Prefix Moves [] \<noteq> [] \<longleftrightarrow> (\<exists>Uci \<in> set Moves. StartsWith Prefix Uci)"
proof (induction Moves)
  case Nil
  then show ?case by simp
next
  case (Cons Uci Rest)
  show ?case
  proof (cases "StartsWith Prefix Uci")
    case True
    then have "Uci \<noteq> []" by (rule StartsWith_nonempty)
    with True show ?thesis by (auto simp: ScanMoves_acc)
  next
    case False
    with Cons show ?thesis by simp
  qed
qed

lemma ScanMoves_result:
  "ScanMoves Prefix Moves Acc =
     (case find (\<lambda>Uci. length Uci = 5 \<and> Uci ! 4 = CHR ''q'') (filter (StartsWith Prefix) Moves) of
        Some q \<Rightarrow> q
      | None \<Rightarrow> if Acc \<noteq> [] then Acc
                else (case filter (StartsWith Prefix) Moves of [] \<Rightarrow> [] | Uci # Rest \<Rightarrow> Uci))"
proof (induction Moves arbitrary: Acc)
  case Nil
  then show ?case by simp
next
  case (Cons Uci Rest)
  show ?case
  proof (cases "StartsWith Prefix Uci")
    case True
    then have "Uci \<noteq> []" by (rule StartsWith_nonempty)
    with True show ?thesis by (simp add: Cons split: option.splits)
  next
    case False
    then show ?thesis by (simp add: Cons split: option.splits)
  qed
qed

lemma TryMoveSelectedTo_Inr:
  assumes "fst (TryMoveSelectedTo P TargetSquare c) = Inr u"
  shows "\<exists>c1. fst (RefreshState P c1) = Inr ()
     \<and> snd (TryMoveSelectedTo P TargetSquare c) = snd (RefreshState P c1)"
proof -
  let ?Prefix = "NormalizeSquare (SelectedSquare (CurrentState c)) @ NormalizeSquare TargetSquare"
  let ?c1 = "c\<lparr>MoveHistoryUci := MoveHistoryUci c @
               [ScanMoves ?Prefix (LegalMovesUci (CurrentState c)) []]\<rparr>"
  obtain r c2 where rc: "RefreshState P ?c1 = (r, c2)" by (cases "RefreshState P ?c1")
  from assms rc have "r = Inr () \<and> snd (TryMoveSelectedTo P TargetSquare c) = c2"
    by (cases r) (auto simp: TryMoveSelectedTo_def Let_def split: if_splits)
  with rc have "fst (RefreshState P ?c1) = Inr ()
     \<and> snd (TryMoveSelectedTo P TargetSquare c) = snd (RefreshState P ?c1)" by simp
  then show ?thesis by blast
qed

lemma TryMoveSelectedTo_Inl:
  assumes "fst (TryMoveSelectedTo P TargetSquare c) = Inl e"
  shows "CurrentState (snd (TryMoveSelectedTo P TargetSquare c)) = CurrentState c"
proof -
  let ?Prefix = "NormalizeSquare (SelectedSquare (CurrentState c)) @ NormalizeSquare TargetSquare"
  let ?c1 = "c\<lparr>MoveHistoryUci := MoveHistoryUci c @
               [ScanMoves ?Prefix (LegalMovesUci (CurrentState c)) []]\<rparr>"
  obtain r c2 where rc: "RefreshState P ?c1 = (r, c2)" by (cases "RefreshState P ?c1")
  have keep: "r = Inl e' \<Longrightarrow> CurrentState c2 = CurrentState c" for e'
    using RefreshState_Inl[of P ?c1 e'] by (simp add: rc)
  from assms rc keep show ?thesis
    by (cases r) (auto simp: TryMoveSelectedTo_def Let_def split: if_splits)
qed

subsection \<open>The targets of a square\<close>

lemma AddUnique_mem_iff:
  "list_ex (\<lambda>y. FStringEq y x) xs \<longleftrightarrow> ToLower x \<in> ToLower ` set xs"
  by (auto simp: list_ex_iff FStringEq_def intro: image_eqI[OF sym])

lemma set_AddUnique_subset: "set (AddUnique xs x) \<subseteq> insert x (set xs)"
  by (auto simp: AddUnique_def)

lemma set_AddUnique_mono: "set xs \<subseteq> set (AddUnique xs x)"
  by (auto simp: AddUnique_def)

lemma AddUnique_covers: "\<exists>t \<in> set (AddUnique xs x). FStringEq t x"
  by (auto simp: AddUnique_def list_ex_iff FStringEq_def)

lemma AddUnique_distinct:
  "distinct (map ToLower xs) \<Longrightarrow> distinct (map ToLower (AddUnique xs x))"
  by (auto simp: AddUnique_def AddUnique_mem_iff)


lemma CollectTargets_foldl:
  "CollectTargets N Moves Acc = foldl AddUnique Acc (SecondSquares N Moves)"
  by (induction Moves arbitrary: Acc) (simp_all add: SecondSquares_def)

lemma foldl_AddUnique_subset: "set (foldl AddUnique Acc xs) \<subseteq> set Acc \<union> set xs"
proof (induction xs arbitrary: Acc)
  case Nil
  then show ?case by simp
next
  case (Cons x xs)
  from Cons[of "AddUnique Acc x"] set_AddUnique_subset[of Acc x]
  show ?case by auto
qed

lemma foldl_AddUnique_mono: "set Acc \<subseteq> set (foldl AddUnique Acc xs)"
proof (induction xs arbitrary: Acc)
  case Nil
  then show ?case by simp
next
  case (Cons x xs)
  from Cons[of "AddUnique Acc x"] set_AddUnique_mono[of Acc x]
  show ?case by auto
qed

lemma foldl_AddUnique_covers:
  "x \<in> set xs \<Longrightarrow> \<exists>t \<in> set (foldl AddUnique Acc xs). FStringEq t x"
proof (induction xs arbitrary: Acc)
  case Nil
  then show ?case by simp
next
  case (Cons y ys)
  show ?case
  proof (cases "x = y")
    case True
    obtain t where "t \<in> set (AddUnique Acc y)" "FStringEq t y"
      using AddUnique_covers[of Acc y] by blast
    with True foldl_AddUnique_mono[of "AddUnique Acc y" ys] show ?thesis by auto
  next
    case False
    with Cons.prems have "x \<in> set ys" by simp
    from Cons.IH[OF this, of "AddUnique Acc y"] show ?thesis by simp
  qed
qed

lemma foldl_AddUnique_distinct:
  "distinct (map ToLower Acc) \<Longrightarrow> distinct (map ToLower (foldl AddUnique Acc xs))"
  by (induction xs arbitrary: Acc) (simp_all add: AddUnique_distinct)


lemma set_Sort [simp]: "set (Sort xs) = set xs"
  by (simp add: Sort_def)

lemma Sort_empty_iff [simp]: "Sort xs = [] \<longleftrightarrow> xs = []"
  using length_sort[of ToLower xs] by (auto simp: Sort_def simp del: length_sort)

lemma Sort_strict:
  assumes "distinct (map ToLower xs)"
  shows "sorted_wrt FStringLess (Sort xs)"
proof -
  from assms have "distinct (map ToLower (sort_key ToLower xs))"
    by (simp add: distinct_map)
  then have "sorted_wrt (<) (map ToLower (Sort xs))"
    by (simp add: strict_sorted_iff Sort_def)
  then have "sorted_wrt (\<lambda>a b. ToLower a < ToLower b) (Sort xs)"
    by (simp add: sorted_wrt_map)
  moreover have "FStringLess = (\<lambda>a b. ToLower a < ToLower b)"
    by (intro ext) (simp add: FStringLess_def)
  ultimately show ?thesis by simp
qed

lemma ToLower_Mid: "ToLower (Mid i n s) = Mid i n (ToLower s)"
  by (simp add: ToLower_def Mid_def take_map drop_map)

lemma SecondSquares_lower:
  "\<forall>Uci \<in> set Moves. ToLower Uci = Uci \<Longrightarrow> s \<in> set (SecondSquares N Moves) \<Longrightarrow> ToLower s = s"
  by (auto simp: SecondSquares_def ToLower_Mid)

lemma targets_subset:
  "set (Sort (CollectTargets N Moves [])) \<subseteq> set (SecondSquares N Moves)"
  using foldl_AddUnique_subset[of "[]" "SecondSquares N Moves"]
  by (simp add: CollectTargets_foldl)

lemma targets_cover:
  "s \<in> set (SecondSquares N Moves) \<Longrightarrow> \<exists>t \<in> set (Sort (CollectTargets N Moves [])). FStringEq t s"
  using foldl_AddUnique_covers[of s "SecondSquares N Moves" "[]"]
  by (simp add: CollectTargets_foldl)

lemma targets_strict: "sorted_wrt FStringLess (Sort (CollectTargets N Moves []))"
  by (rule Sort_strict) (simp add: CollectTargets_foldl foldl_AddUnique_distinct)


lemma targets_lower:
  assumes low: "\<forall>Uci \<in> set Moves. ToLower Uci = Uci"
  shows "sorted (Sort (CollectTargets N Moves [])) \<and> distinct (Sort (CollectTargets N Moves []))
     \<and> set (Sort (CollectTargets N Moves [])) = set (SecondSquares N Moves)"
proof -
  let ?T = "Sort (CollectTargets N Moves [])"
  have low_t: "ToLower t = t" if "t \<in> set ?T" for t
    using that targets_subset[of N Moves] SecondSquares_lower[OF low] by blast
  have "sorted_wrt (\<lambda>a b. ToLower a < ToLower b) ?T"
    using targets_strict[of N Moves] by (simp add: FStringLess_def[abs_def])
  then have "sorted_wrt (<) ?T"
    by (rule sorted_wrt_mono_rel[rotated]) (simp add: low_t)
  then have sd: "sorted ?T \<and> distinct ?T" by (simp add: strict_sorted_iff)
  have "s \<in> set ?T" if s: "s \<in> set (SecondSquares N Moves)" for s
  proof -
    from targets_cover[OF s] obtain t where t: "t \<in> set ?T" "FStringEq t s" by blast
    from low_t[OF t(1)] have "t = ToLower t" by (rule sym)
    also from t(2) have "\<dots> = ToLower s" by (simp add: FStringEq_def)
    also have "\<dots> = s" by (rule SecondSquares_lower[OF low s])
    finally show ?thesis using t(1) by simp
  qed
  with targets_subset[of N Moves] have "set ?T = set (SecondSquares N Moves)" by blast
  with sd show ?thesis by simp
qed

subsection \<open>Selections that SelectSquare made\<close>

lemma inv_Constructed: "SelectedBySelectSquare (CurrentState Constructed)"
  by (simp add: SelectedBySelectSquare_def Constructed_def DefaultPayload_def)

lemma inv_RefreshState:
  assumes "NoSelectionField P" and "SelectedBySelectSquare (CurrentState c)"
  shows "SelectedBySelectSquare (CurrentState (snd (RefreshState P c)))"
proof (cases "fst (RefreshState P c)")
  case (Inl e)
  with assms(2) show ?thesis by (simp add: RefreshState_Inl)
next
  case (Inr u)
  from RefreshState_Inr[OF Inr] obtain Json NextState where
    n: "ParsePayloadJson P Json DefaultPayload = Inr NextState"
       "CurrentState (snd (RefreshState P c)) = NextState"
    by auto
  from ParsePayloadJson_selected[OF n(1)] obtain RootObj where
    r: "Deserialize P Json = Some RootObj"
       "SelectedSquare NextState =
          (case TryGetStringField P RootObj ''selected_square'' of None \<Rightarrow> [] | Some sq \<Rightarrow> sq)"
    by blast
  from assms(1) r(1) have "TryGetStringField P RootObj ''selected_square'' \<in> {None, Some []}"
    unfolding NoSelectionField_def by blast
  with r(2) have "SelectedSquare NextState = []" by auto
  with n(2) show ?thesis by (simp add: SelectedBySelectSquare_def)
qed

lemma inv_ResetMatch:
  assumes "NoSelectionField P" and "SelectedBySelectSquare (CurrentState c)"
  shows "SelectedBySelectSquare (CurrentState (ResetMatch P c))"
  unfolding ResetMatch_CurrentState
  using assms by (intro inv_RefreshState) simp_all

lemma inv_SelectSquare:
  assumes "SelectedBySelectSquare (CurrentState c)"
  shows "SelectedBySelectSquare (CurrentState (snd (SelectSquare Square c)))"
  using assms by (simp add: SelectSquare_def Let_def SelectedBySelectSquare_def)

lemma inv_TryMoveSelectedTo:
  assumes "NoSelectionField P" and "SelectedBySelectSquare (CurrentState c)"
  shows "SelectedBySelectSquare (CurrentState (snd (TryMoveSelectedTo P TargetSquare c)))"
proof (cases "fst (TryMoveSelectedTo P TargetSquare c)")
  case (Inl e)
  with assms(2) show ?thesis by (simp add: TryMoveSelectedTo_Inl)
next
  case (Inr u)
  from TryMoveSelectedTo_Inr[OF Inr] obtain c1 where
    c1: "fst (RefreshState P c1) = Inr ()"
        "snd (TryMoveSelectedTo P TargetSquare c) = snd (RefreshState P c1)"
    by blast
  from RefreshState_Inr[OF c1(1)] obtain Json NextState where
    n: "ParsePayloadJson P Json DefaultPayload = Inr NextState"
       "CurrentState (snd (RefreshState P c1)) = NextState"
    by auto
  from ParsePayloadJson_selected[OF n(1)] obtain RootObj where
    r: "Deserialize P Json = Some RootObj"
       "SelectedSquare NextState =
          (case TryGetStringField P RootObj ''selected_square'' of None \<Rightarrow> [] | Some sq \<Rightarrow> sq)"
    by blast
  from assms(1) r(1) have "TryGetStringField P RootObj ''selected_square'' \<in> {None, Some []}"
    unfolding NoSelectionField_def by blast
  with r(2) have "SelectedSquare NextState = []" by auto
  with n(2) c1(2) show ?thesis by (simp add: SelectedBySelectSquare_def)
qed

lemma inv_Apply:
  assumes "NoSelectionFromOracle op" and "SelectedBySelectSquare (CurrentState c)"
  shows "SelectedBySelectSquare (CurrentState (Apply op c))"
  using assms
  by (cases op) (simp_all add: inv_RefreshState inv_ResetMatch inv_SelectSquare inv_TryMoveSelectedTo)

lemma inv_Run:
  assumes "\<forall>op \<in> set ops. NoSelectionFromOracle op" and "SelectedBySelectSquare (CurrentState c)"
  shows "SelectedBySelectSquare (CurrentState (Run ops c))"
  using assms by (induction ops arbitrary: c) (simp_all add: inv_Apply)

lemma inv_consistent_FS:
  assumes "SelectedBySelectSquare S"
  shows "SelectionConsistentFS S"
proof (cases "SelectedSquare S = []")
  case True
  then show ?thesis by (simp add: SelectionConsistentFS_def)
next
  case False
  with assms have t: "LegalTargets S = Sort (CollectTargets (SelectedSquare S) (LegalMovesUci S) [])"
    and ne: "LegalTargets S \<noteq> []"
    by (auto simp: SelectedBySelectSquare_def)
  show ?thesis
    unfolding SelectionConsistentFS_def
    using ne targets_subset[of "SelectedSquare S" "LegalMovesUci S"]
      targets_cover[of _ "SelectedSquare S" "LegalMovesUci S"]
    by (simp add: t[symmetric])
qed

lemma inv_consistent:
  assumes "SelectedBySelectSquare S" and "\<forall>Uci \<in> set (LegalMovesUci S). ToLower Uci = Uci"
  shows "SelectionConsistent S"
proof (cases "SelectedSquare S = []")
  case True
  then show ?thesis by (simp add: SelectionConsistent_def)
next
  case False
  with assms have t: "LegalTargets S = Sort (CollectTargets (SelectedSquare S) (LegalMovesUci S) [])"
    and ne: "LegalTargets S \<noteq> []"
    by (auto simp: SelectedBySelectSquare_def)
  show ?thesis
    unfolding SelectionConsistent_def
    using ne targets_lower[OF assms(2), of "SelectedSquare S"]
    by (simp add: t[symmetric])
qed

subsection \<open>The sample platform\<close>

lemma sample_fail: "\<not> RefreshSteps FailingPlatform c"
  by (simp add: RefreshSteps_def FailingPlatform_def SamplePlatform_def)

lemma sample_ok: "RefreshSteps (SamplePlatform (Some (SampleDoc Moves))) c"
  by (simp add: RefreshSteps_def SamplePlatform_def SampleDoc_def RequiredFields_def)

lemma sample_fail_error:
  "fst (RefreshState FailingPlatform c) = Inl (ExporterFailed 1 ''no board'' [])"
  by (simp add: RefreshState_def FailingPlatform_def SamplePlatform_def Let_def)

lemma sample_no_selection_field: "NoSelectionField (SamplePlatform (Some (SampleDoc Moves)))"
  by (simp add: NoSelectionField_def SamplePlatform_def SampleDoc_def RequiredFields_def)

lemma valid_e2: "IsSquareValid (NormalizeSquare ''e2'')" by code_simp
lemma valid_e4: "IsSquareValid (NormalizeSquare ''e4'')" by code_simp
lemma invalid_z9: "\<not> IsSquareValid (NormalizeSquare ''z9'')" by code_simp

lemma normal_squares:
  "NormalizeSquare ''e2'' = ''e2''" "NormalizeSquare ''e4'' = ''e4''"
  "NormalizeSquare ''e7'' = ''e7''" "NormalizeSquare ''e8'' = ''e8''"
  "NormalizeSquare ''e1'' = ''e1''"
  by code_simp+

lemma valid_squares:
  "IsSquareValid ''e2''" "IsSquareValid ''e4''" "IsSquareValid ''e7''" "IsSquareValid ''e8''"
  "IsSquareValid ''e1''"
  by code_simp+


lemma sample_lower: "\<forall>Uci \<in> set [''e2e4'', ''e2e3'', ''b1c3'']. ToLower Uci = Uci"
  by code_simp

lemma SampleComponent_simps [simp]:
  "SelectedSquare (CurrentState (SampleComponent Sel Targets Moves)) = Sel"
  "LegalTargets (CurrentState (SampleComponent Sel Targets Moves)) = Targets"
  "LegalMovesUci (CurrentState (SampleComponent Sel Targets Moves)) = Moves"
  "MoveHistoryUci (SampleComponent Sel Targets Moves) = []"
  "Effects (SampleComponent Sel Targets Moves) = []"
  by (simp_all add: SampleComponent_def Constructed_def)


lemma sample_move_ok:
  "fst (TryMoveSelectedTo (SamplePlatform (Some Doc)) ''e4'' (SampleComponent ''e2'' [''e4''] [''e2e4'']))
     = fst (RefreshState (SamplePlatform (Some Doc))
         ((SampleComponent ''e2'' [''e4''] [''e2e4''])\<lparr>MoveHistoryUci := [''e2e4'']\<rparr>))"
  "CurrentState (snd (TryMoveSelectedTo (SamplePlatform (Some Doc)) ''e4'' (SampleComponent ''e2'' [''e4''] [''e2e4''])))
     = CurrentState (snd (RefreshState (SamplePlatform (Some Doc))
         ((SampleComponent ''e2'' [''e4''] [''e2e4''])\<lparr>MoveHistoryUci := [''e2e4'']\<rparr>)))"
  by (simp_all add: TryMoveSelectedTo_def Let_def normal_squares valid_squares StartsWith_def
        split: prod.splits sum.splits)

lemma injected_selection_state:
  "CurrentState (Run [Refresh (SamplePlatform (Some ((''selected_square'', JString ''e2'') # SampleDoc [''e2e4''])))]
      Constructed)
   = \<lparr>Fen = ''8/8/8/8/8/8/8/8 w - - 0 1'', Turn = ''white'', SelectedSquare = ''e2'',
       LegalTargets = [], bIsGameOver = False, StatusText = ''White to move'', ScoreText = ''0'',
       LegalMovesUci = [''e2e4'']\<rparr>"
  by code_simp

lemma mixed_case_state:
  "CurrentState (Run [Refresh (SamplePlatform (Some (SampleDoc [''e2E4'', ''e2e4'']))), Select ''e2'']
      Constructed)
   = \<lparr>Fen = ''8/8/8/8/8/8/8/8 w - - 0 1'', Turn = ''white'', SelectedSquare = ''e2'',
       LegalTargets = [''E4''], bIsGameOver = False, StatusText = ''White to move'', ScoreText = ''0'',
       LegalMovesUci = [''e2E4'', ''e2e4'']\<rparr>"
  by code_simp

lemma selected_e2_state:
  "CurrentState (Run [Refresh (SamplePlatform (Some (SampleDoc [''e2e4'', ''e2e3'', ''b1c3'']))), Select ''e2'']
      Constructed)
   = \<lparr>Fen = ''8/8/8/8/8/8/8/8 w - - 0 1'', Turn = ''white'', SelectedSquare = ''e2'',
       LegalTargets = [''e3'', ''e4''], bIsGameOver = False, StatusText = ''White to move'', ScoreText = ''0'',
       LegalMovesUci = [''e2e4'', ''e2e3'', ''b1c3'']\<rparr>"
  by code_simp

section \<open>The claims\<close>

text \<open>
  C1. As stated the claim fails. \<open>RefreshState\<close> stores the \<open>selected_square\<close> and the
  \<open>legal_targets\<close> of the payload as they come, so a refresh can leave a selection with
  no targets; and \<open>AddUnique\<close> compares with \<open>operator==\<close>, which ignores the case of
  letters, so of two moves that differ only in case one second square is kept. Both
  states below are reached from the constructed component.
\<close>

theorem selection_inconsistent_reachable:
  "SelectedSquare (CurrentState
      (Run [Refresh (SamplePlatform (Some ((''selected_square'', JString ''e2'') # SampleDoc [''e2e4''])))]
         Constructed)) = ''e2''
   \<and> LegalTargets (CurrentState
      (Run [Refresh (SamplePlatform (Some ((''selected_square'', JString ''e2'') # SampleDoc [''e2e4''])))]
         Constructed)) = []
   \<and> SecondSquares ''e2'' (LegalMovesUci (CurrentState
      (Run [Refresh (SamplePlatform (Some ((''selected_square'', JString ''e2'') # SampleDoc [''e2e4''])))]
         Constructed))) = [''e4'']
   \<and> \<not> SelectionConsistent (CurrentState
      (Run [Refresh (SamplePlatform (Some ((''selected_square'', JString ''e2'') # SampleDoc [''e2e4''])))]
         Constructed))
   \<and> LegalTargets (CurrentState
      (Run [Refresh (SamplePlatform (Some (SampleDoc [''e2E4'', ''e2e4'']))), Select ''e2'']
         Constructed)) = [''E4'']
   \<and> SecondSquares ''e2'' (LegalMovesUci (CurrentState
      (Run [Refresh (SamplePlatform (Some (SampleDoc [''e2E4'', ''e2e4'']))), Select ''e2'']
         Constructed))) = [''E4'', ''e4'']
   \<and> \<not> SelectionConsistent (CurrentState
      (Run [Refresh (SamplePlatform (Some (SampleDoc [''e2E4'', ''e2e4'']))), Select ''e2'']
         Constructed))"
  unfolding injected_selection_state mixed_case_state
  by (simp add: SelectionConsistent_def SecondSquares_def Left_def Mid_def)

text \<open>
  C1, amended. After every sequence of operations from the constructed component in
  which no payload carries a non-empty \<open>selected_square\<close>: when \<open>SelectedSquare\<close> is not
  empty, every target is the second square of a legal move of at least four characters
  whose first two are the selected square, and every such second square equals a target
  up to the case of letters; when no legal move holds an upper-case letter the targets
  are exactly those second squares; and when \<open>LegalTargets\<close> is empty, so is
  \<open>SelectedSquare\<close>.
\<close>

theorem selection_consistent_reachable:
  assumes "\<forall>op \<in> set ops. NoSelectionFromOracle op"
  shows "SelectionConsistentFS (CurrentState (Run ops Constructed))
    \<and> ((\<forall>Uci \<in> set (LegalMovesUci (CurrentState (Run ops Constructed))). ToLower Uci = Uci) \<longrightarrow>
         SelectionConsistent (CurrentState (Run ops Constructed)))"
  using inv_Run[OF assms inv_Constructed] inv_consistent_FS inv_consistent by blast

theorem selection_consistent_reachable_witness:
  "NoSelectionField (SamplePlatform (Some (SampleDoc [''e2e4'', ''e2e3'', ''b1c3''])))
   \<and> SelectedSquare (CurrentState
        (Run [Refresh (SamplePlatform (Some (SampleDoc [''e2e4'', ''e2e3'', ''b1c3'']))), Select ''e2'']
           Constructed)) = ''e2''
   \<and> LegalTargets (CurrentState
        (Run [Refresh (SamplePlatform (Some (SampleDoc [''e2e4'', ''e2e3'', ''b1c3'']))), Select ''e2'']
           Constructed)) = [''e3'', ''e4'']
   \<and> SelectionConsistent (CurrentState
        (Run [Refresh (SamplePlatform (Some (SampleDoc [''e2e4'', ''e2e3'', ''b1c3'']))), Select ''e2'']
           Constructed))"
proof -
  let ?P = "SamplePlatform (Some (SampleDoc [''e2e4'', ''e2e3'', ''b1c3'']))"
  let ?ops = "[Refresh ?P, Select ''e2'']"
  have h: "\<forall>op \<in> set ?ops. NoSelectionFromOracle op"
    by (simp add: sample_no_selection_field)
  have low: "\<forall>Uci \<in> set (LegalMovesUci (CurrentState (Run ?ops Constructed))). ToLower Uci = Uci"
    unfolding selected_e2_state using sample_lower by simp
  from selection_consistent_reachable[OF h] low
  have c: "SelectionConsistent (CurrentState (Run ?ops Constructed))" by blast
  have s: "SelectedSquare (CurrentState (Run ?ops Constructed)) = ''e2''"
    and t: "LegalTargets (CurrentState (Run ?ops Constructed)) = [''e3'', ''e4'']"
    unfolding selected_e2_state by simp_all
  from sample_no_selection_field[of "[''e2e4'', ''e2e3'', ''b1c3'']"] s t c
  show ?thesis by (simp only: simp_thms)
qed

text \<open>
  C2. With a valid selection and a valid target, the prefix has four characters. When
  no legal move starts with it, \<open>TryMoveSelectedTo\<close> fails with \<open>IllegalMove\<close> and
  the component is what it was. Otherwise the loop chooses the move of length 5 with
  \<open>q\<close> as fifth character when one is among the matches, wherever it stands, and
  else the first match; \<open>RefreshState\<close> runs on the history with that move appended,
  and after a successful refresh the history ends with it.
\<close>

theorem TryMoveSelectedTo_promotion_choice:
  assumes "IsSquareValid (NormalizeSquare (SelectedSquare (CurrentState c)))"
    and "IsSquareValid (NormalizeSquare TargetSquare)"
  shows
    "let Prefix = NormalizeSquare (SelectedSquare (CurrentState c)) @ NormalizeSquare TargetSquare;
         Matches = filter (StartsWith Prefix) (LegalMovesUci (CurrentState c));
         Chosen = (case find (\<lambda>Uci. length Uci = 5 \<and> Uci ! 4 = CHR ''q'') Matches of
                     Some q \<Rightarrow> q
                   | None \<Rightarrow> hd Matches);
         Appended = c\<lparr>MoveHistoryUci := MoveHistoryUci c @ [Chosen]\<rparr>
     in length Prefix = 4
        \<and> (Matches = [] \<longrightarrow> TryMoveSelectedTo P TargetSquare c = (Inl (IllegalMove Prefix), c))
        \<and> (Matches \<noteq> [] \<longrightarrow>
             ScanMoves Prefix (LegalMovesUci (CurrentState c)) [] = Chosen
             \<and> fst (TryMoveSelectedTo P TargetSquare c) = fst (RefreshState P Appended)
             \<and> CurrentState (snd (TryMoveSelectedTo P TargetSquare c))
                 = CurrentState (snd (RefreshState P Appended))
             \<and> Effects (snd (TryMoveSelectedTo P TargetSquare c))
                 = Effects (snd (RefreshState P Appended))
             \<and> (fst (RefreshState P Appended) = Inr () \<longrightarrow>
                  MoveHistoryUci (snd (TryMoveSelectedTo P TargetSquare c))
                    = MoveHistoryUci c @ [Chosen]))"
proof -
  let ?Prefix = "NormalizeSquare (SelectedSquare (CurrentState c)) @ NormalizeSquare TargetSquare"
  let ?Moves = "LegalMovesUci (CurrentState c)"
  let ?Matches = "filter (StartsWith ?Prefix) ?Moves"
  let ?Chosen = "case find (\<lambda>Uci. length Uci = 5 \<and> Uci ! 4 = CHR ''q'') ?Matches of
                     Some q \<Rightarrow> q | None \<Rightarrow> hd ?Matches"
  let ?Appended = "c\<lparr>MoveHistoryUci := MoveHistoryUci c @ [?Chosen]\<rparr>"
  have len: "length ?Prefix = 4"
    using assms by (simp add: IsSquareValid_length)
  have none: "TryMoveSelectedTo P TargetSquare c = (Inl (IllegalMove ?Prefix), c)"
    if "?Matches = []"
    using assms that by (simp add: TryMoveSelectedTo_def Let_def ScanMoves_result)
  have scan: "ScanMoves ?Prefix ?Moves [] = ?Chosen" if "?Matches \<noteq> []"
    using that by (cases ?Matches) (simp_all add: ScanMoves_result split: option.splits)
  have ne: "ScanMoves ?Prefix ?Moves [] \<noteq> []" if "?Matches \<noteq> []"
  proof -
    from that obtain Uci where "Uci \<in> set ?Matches" by (cases ?Matches) auto
    then have "\<exists>Uci \<in> set ?Moves. StartsWith ?Prefix Uci" by auto
    then show ?thesis by (simp add: ScanMoves_nonempty_iff)
  qed
  have some: "TryMoveSelectedTo P TargetSquare c =
      (case RefreshState P ?Appended of
         (Inl e, c2) \<Rightarrow> (Inl e, c2\<lparr>MoveHistoryUci := butlast (MoveHistoryUci c2)\<rparr>)
       | (Inr u, c2) \<Rightarrow> (Inr (), c2))" if "?Matches \<noteq> []"
    using assms ne[OF that] scan[OF that]
    by (simp add: TryMoveSelectedTo_def Let_def)
  have hist: "MoveHistoryUci (snd (RefreshState P ?Appended)) = MoveHistoryUci c @ [?Chosen]"
    by simp
  have res: "fst (TryMoveSelectedTo P TargetSquare c) = fst (RefreshState P ?Appended)
      \<and> CurrentState (snd (TryMoveSelectedTo P TargetSquare c))
           = CurrentState (snd (RefreshState P ?Appended))
      \<and> Effects (snd (TryMoveSelectedTo P TargetSquare c))
           = Effects (snd (RefreshState P ?Appended))
      \<and> (fst (RefreshState P ?Appended) = Inr () \<longrightarrow>
            MoveHistoryUci (snd (TryMoveSelectedTo P TargetSquare c)) = MoveHistoryUci c @ [?Chosen])"
    if "?Matches \<noteq> []"
  proof (cases "RefreshState P ?Appended")
    case (Pair r c2)
    with hist have "MoveHistoryUci c2 = MoveHistoryUci c @ [?Chosen]" by simp
    with Pair show ?thesis
      unfolding some[OF that] by (cases r) simp_all
  qed
  show ?thesis
    unfolding Let_def using len none scan res by blast
qed

theorem TryMoveSelectedTo_promotion_choice_witness:
  "IsSquareValid (NormalizeSquare ''e7'') \<and> IsSquareValid (NormalizeSquare ''e8'')
   \<and> ScanMoves ''e7e8'' [''e7e8n'', ''e7e8q''] [] = ''e7e8q''
   \<and> MoveHistoryUci (snd (TryMoveSelectedTo (SamplePlatform (Some (SampleDoc []))) ''e8''
        (SampleComponent ''e7'' [''e8''] [''e7e8n'', ''e7e8q'']))) = [''e7e8q'']
   \<and> TryMoveSelectedTo (SamplePlatform (Some (SampleDoc []))) ''e1''
        (SampleComponent ''e7'' [''e8''] [''e7e8n'', ''e7e8q''])
      = (Inl (IllegalMove ''e7e1''), SampleComponent ''e7'' [''e8''] [''e7e8n'', ''e7e8q''])"
proof -
  let ?c = "SampleComponent ''e7'' [''e8''] [''e7e8n'', ''e7e8q'']"
  let ?P = "SamplePlatform (Some (SampleDoc []))"
  have h1: "IsSquareValid (NormalizeSquare (SelectedSquare (CurrentState ?c)))"
    by (simp add: normal_squares valid_squares)
  have h8: "IsSquareValid (NormalizeSquare ''e8'')" and h7: "IsSquareValid (NormalizeSquare ''e7'')"
    and h1': "IsSquareValid (NormalizeSquare ''e1'')"
    by (simp_all add: normal_squares valid_squares)
  have ok: "fst (RefreshState ?P c') = Inr ()" for c'
    by (simp add: RefreshState_ok_iff sample_ok)
  from TryMoveSelectedTo_promotion_choice[OF h1 h8, of ?P]
  have a: "ScanMoves ''e7e8'' [''e7e8n'', ''e7e8q''] [] = ''e7e8q''
     \<and> MoveHistoryUci (snd (TryMoveSelectedTo ?P ''e8'' ?c)) = [''e7e8q'']"
    by (simp add: Let_def normal_squares StartsWith_def ok)
  from TryMoveSelectedTo_promotion_choice[OF h1 h1', of ?P]
  have b: "TryMoveSelectedTo ?P ''e1'' ?c = (Inl (IllegalMove ''e7e1''), ?c)"
    by (simp add: Let_def normal_squares StartsWith_def)
  from h7 h8 a b show ?thesis by (simp only: simp_thms)
qed




text \<open>
  C4. \<open>RefreshState\<close> succeeds exactly when every step goes through: the script
  exists, the exporter runs and exits with 0, the output is read and deserialised, and
  \<open>fen\<close>, \<open>turn\<close>, \<open>is_game_over\<close>, \<open>status_text\<close> and \<open>score_text\<close> are there. When a
  step fails it returns an error, \<open>CurrentState\<close> and the move history are what they
  were and no \<open>OnStateChanged\<close> is broadcast. When all go through, \<open>CurrentState\<close> is
  the payload parsed into a default-constructed snapshot, nothing of the old snapshot
  remains, and the observers are notified once.
\<close>

theorem RefreshState_all_or_nothing:
  "(fst (RefreshState P c) = Inr () \<longleftrightarrow> RefreshSteps P c)
   \<and> (\<not> RefreshSteps P c \<longrightarrow>
        (\<exists>e. fst (RefreshState P c) = Inl e)
        \<and> CurrentState (snd (RefreshState P c)) = CurrentState c
        \<and> MoveHistoryUci (snd (RefreshState P c)) = MoveHistoryUci c
        \<and> Notifications (snd (RefreshState P c)) = Notifications c)
   \<and> (RefreshSteps P c \<longrightarrow>
        (\<exists>Json NextState. LoadFileToString P (OutputPath P) = Some Json
           \<and> ParsePayloadJson P Json DefaultPayload = Inr NextState
           \<and> CurrentState (snd (RefreshState P c)) = NextState)
        \<and> MoveHistoryUci (snd (RefreshState P c)) = MoveHistoryUci c
        \<and> Notifications (snd (RefreshState P c)) = Suc (Notifications c))"
proof (intro conjI impI)
  show "fst (RefreshState P c) = Inr () \<longleftrightarrow> RefreshSteps P c"
    by (rule RefreshState_ok_iff)
next
  assume "\<not> RefreshSteps P c"
  then have "fst (RefreshState P c) \<noteq> Inr ()" by (simp add: RefreshState_ok_iff)
  then obtain e where e: "fst (RefreshState P c) = Inl e"
    by (cases "fst (RefreshState P c)") auto
  then show "\<exists>e. fst (RefreshState P c) = Inl e" ..
  from e show "CurrentState (snd (RefreshState P c)) = CurrentState c"
    by (simp add: RefreshState_Inl)
  from e show "Notifications (snd (RefreshState P c)) = Notifications c"
    by (simp add: RefreshState_Inl)
next
  assume "RefreshSteps P c"
  then have ok: "fst (RefreshState P c) = Inr ()" by (simp add: RefreshState_ok_iff)
  from RefreshState_Inr[OF ok] obtain Json NextState where
    *: "LoadFileToString P (OutputPath P) = Some Json"
       "ParsePayloadJson P Json DefaultPayload = Inr NextState"
       "snd (RefreshState P c) = c\<lparr>CurrentState := NextState,
            Effects := Effects c @ [MakeDirectory (OutputDir P),
               ExecProcessCall (PythonExe c) (Params P c) (WorkingDir P c), Broadcast]\<rparr>"
    by blast
  from * show "\<exists>Json NextState. LoadFileToString P (OutputPath P) = Some Json
           \<and> ParsePayloadJson P Json DefaultPayload = Inr NextState
           \<and> CurrentState (snd (RefreshState P c)) = NextState"
    by simp
  from * show "Notifications (snd (RefreshState P c)) = Suc (Notifications c)"
    by (simp add: Notifications_def)
qed simp_all

theorem RefreshState_all_or_nothing_witness:
  "\<not> RefreshSteps FailingPlatform Constructed
   \<and> CurrentState (snd (RefreshState FailingPlatform Constructed)) = DefaultPayload
   \<and> Notifications (snd (RefreshState FailingPlatform Constructed)) = 0
   \<and> RefreshSteps (SamplePlatform (Some (SampleDoc [''e2e4'']))) Constructed
   \<and> Notifications (snd (RefreshState (SamplePlatform (Some (SampleDoc [''e2e4'']))) Constructed)) = 1"
  using RefreshState_all_or_nothing[of FailingPlatform Constructed]
    RefreshState_all_or_nothing[of "SamplePlatform (Some (SampleDoc [''e2e4'']))" Constructed]
    sample_fail[of Constructed] sample_ok[of "[''e2e4'']" Constructed]
  by (simp add: Constructed_def Notifications_def)

text \<open>
  C5. With a valid selection, a valid target and a legal move between them, when the
  \<open>RefreshState\<close> that follows the append of the chosen move fails with \<open>e\<close>,
  \<open>TryMoveSelectedTo\<close> fails with the same \<open>e\<close>, and the move history (and the
  snapshot) are what they were before the call.
\<close>

theorem TryMoveSelectedTo_rollback:
  assumes "IsSquareValid (NormalizeSquare (SelectedSquare (CurrentState c)))"
    and "IsSquareValid (NormalizeSquare TargetSquare)"
    and "\<exists>Uci \<in> set (LegalMovesUci (CurrentState c)).
           StartsWith (NormalizeSquare (SelectedSquare (CurrentState c)) @ NormalizeSquare TargetSquare) Uci"
    and "fst (RefreshState P (c\<lparr>MoveHistoryUci := MoveHistoryUci c @
           [ScanMoves (NormalizeSquare (SelectedSquare (CurrentState c)) @ NormalizeSquare TargetSquare)
              (LegalMovesUci (CurrentState c)) []]\<rparr>)) = Inl e"
  shows "fst (TryMoveSelectedTo P TargetSquare c) = Inl e
    \<and> MoveHistoryUci (snd (TryMoveSelectedTo P TargetSquare c)) = MoveHistoryUci c
    \<and> CurrentState (snd (TryMoveSelectedTo P TargetSquare c)) = CurrentState c"
proof -
  let ?m = "ScanMoves (NormalizeSquare (SelectedSquare (CurrentState c)) @ NormalizeSquare TargetSquare)
              (LegalMovesUci (CurrentState c)) []"
  let ?c1 = "c\<lparr>MoveHistoryUci := MoveHistoryUci c @ [?m]\<rparr>"
  from assms(3) have m: "?m \<noteq> []" by (simp add: ScanMoves_nonempty_iff)
  obtain c2 where rc: "RefreshState P ?c1 = (Inl e, c2)"
    using assms(4) by (cases "RefreshState P ?c1") auto
  have h: "MoveHistoryUci c2 = MoveHistoryUci c @ [?m]"
    using RefreshState_history[of P ?c1] by (simp add: rc)
  have s: "CurrentState c2 = CurrentState c"
    using RefreshState_Inl[of P ?c1 e] by (simp add: rc)
  show ?thesis
    using assms(1,2) m h s by (simp add: TryMoveSelectedTo_def Let_def rc)
qed

theorem TryMoveSelectedTo_rollback_witness:
  "fst (TryMoveSelectedTo FailingPlatform ''e4''
          ((SampleComponent ''e2'' [''e4''] [''e2e4''])\<lparr>MoveHistoryUci := [''d2d4'', ''d7d5'']\<rparr>))
     = Inl (ExporterFailed 1 ''no board'' [])
   \<and> MoveHistoryUci (snd (TryMoveSelectedTo FailingPlatform ''e4''
          ((SampleComponent ''e2'' [''e4''] [''e2e4''])\<lparr>MoveHistoryUci := [''d2d4'', ''d7d5'']\<rparr>)))
     = [''d2d4'', ''d7d5'']"
proof -
  let ?c = "(SampleComponent ''e2'' [''e4''] [''e2e4''])\<lparr>MoveHistoryUci := [''d2d4'', ''d7d5'']\<rparr>"
  have sel: "SelectedSquare (CurrentState ?c) = ''e2''" and mv: "LegalMovesUci (CurrentState ?c) = [''e2e4'']"
    and hist: "MoveHistoryUci ?c = [''d2d4'', ''d7d5'']"
    by (simp_all add: SampleComponent_def)
  have n: "NormalizeSquare ''e2'' = ''e2''" "NormalizeSquare ''e4'' = ''e4''" by code_simp+
  have h1: "IsSquareValid (NormalizeSquare (SelectedSquare (CurrentState ?c)))"
    unfolding sel by (rule valid_e2)
  have h3: "\<exists>Uci \<in> set (LegalMovesUci (CurrentState ?c)).
           StartsWith (NormalizeSquare (SelectedSquare (CurrentState ?c)) @ NormalizeSquare ''e4'') Uci"
    unfolding sel mv n by (simp add: StartsWith_def)
  from TryMoveSelectedTo_rollback[OF h1 valid_e4 h3 sample_fail_error] hist show ?thesis by simp
qed

text \<open>
  C6. As stated the claim fails: \<open>ParsePayloadJson\<close> reads \<open>selected_square\<close> from the
  payload, so after a successful move the selection is what the payload says. Here the
  payload that answers the move e2e4 carries \<open>selected_square = e7\<close>.
\<close>

theorem TryMoveSelectedTo_keeps_payload_selection:
  "fst (TryMoveSelectedTo
          (SamplePlatform (Some ((''selected_square'', JString ''e7'') # SampleDoc [''e7e5''])))
          ''e4'' (SampleComponent ''e2'' [''e4''] [''e2e4''])) = Inr ()
   \<and> SelectedSquare (CurrentState (snd (TryMoveSelectedTo
          (SamplePlatform (Some ((''selected_square'', JString ''e7'') # SampleDoc [''e7e5''])))
          ''e4'' (SampleComponent ''e2'' [''e4''] [''e2e4''])))) = ''e7''
   \<and> SelectedSquare (CurrentState (snd (TryMoveSelectedTo
          (SamplePlatform (Some ((''selected_square'', JString ''e7'') # SampleDoc [''e7e5''])))
          ''e4'' (SampleComponent ''e2'' [''e4''] [''e2e4''])))) \<noteq> []"
  unfolding sample_move_ok
  by (simp add: RefreshState_def Let_def SamplePlatform_def SampleDoc_def RequiredFields_def
        ParsePayloadJson_def DefaultPayload_def)

text \<open>
  C6, amended. After a \<open>TryMoveSelectedTo\<close> that succeeds, \<open>SelectedSquare\<close> is the
  \<open>selected_square\<close> string of the payload that \<open>RefreshState\<close> read, and empty when the
  payload has none: the selection made before the move is never kept.
\<close>

theorem TryMoveSelectedTo_selection_replaced:
  assumes "fst (TryMoveSelectedTo P TargetSquare c) = Inr ()"
  shows "\<exists>Json RootObj. LoadFileToString P (OutputPath P) = Some Json
     \<and> Deserialize P Json = Some RootObj
     \<and> SelectedSquare (CurrentState (snd (TryMoveSelectedTo P TargetSquare c))) =
         (case TryGetStringField P RootObj ''selected_square'' of None \<Rightarrow> [] | Some sq \<Rightarrow> sq)"
proof -
  from TryMoveSelectedTo_Inr[OF assms] obtain c1 where
    c1: "fst (RefreshState P c1) = Inr ()"
        "snd (TryMoveSelectedTo P TargetSquare c) = snd (RefreshState P c1)"
    by blast
  from RefreshState_Inr[OF c1(1)] obtain Json NextState where
    n: "LoadFileToString P (OutputPath P) = Some Json"
       "ParsePayloadJson P Json DefaultPayload = Inr NextState"
       "CurrentState (snd (RefreshState P c1)) = NextState"
    by auto
  from ParsePayloadJson_selected[OF n(2)] obtain RootObj where
    "Deserialize P Json = Some RootObj"
    "SelectedSquare NextState =
       (case TryGetStringField P RootObj ''selected_square'' of None \<Rightarrow> [] | Some sq \<Rightarrow> sq)"
    by blast
  with n c1(2) show ?thesis by auto
qed

theorem TryMoveSelectedTo_selection_replaced_witness:
  "fst (TryMoveSelectedTo (SamplePlatform (Some (SampleDoc [''e7e5'']))) ''e4''
          (SampleComponent ''e2'' [''e4''] [''e2e4''])) = Inr ()
   \<and> SelectedSquare (CurrentState (snd (TryMoveSelectedTo (SamplePlatform (Some (SampleDoc [''e7e5''])))
          ''e4'' (SampleComponent ''e2'' [''e4''] [''e2e4''])))) = []"
proof -
  let ?P = "SamplePlatform (Some (SampleDoc [''e7e5'']))"
  let ?c = "SampleComponent ''e2'' [''e4''] [''e2e4'']"
  have h: "fst (TryMoveSelectedTo ?P ''e4'' ?c) = Inr ()"
    unfolding sample_move_ok by (simp add: RefreshState_ok_iff sample_ok)
  from TryMoveSelectedTo_selection_replaced[OF h]
  have "SelectedSquare (CurrentState (snd (TryMoveSelectedTo ?P ''e4'' ?c))) = []"
    by (auto simp: SamplePlatform_def SampleDoc_def RequiredFields_def)
  with h show ?thesis by simp
qed

text \<open>
  C7. A square that is not valid after lower-casing and trimming: \<open>SelectSquare\<close>
  returns false and \<open>TryMoveSelectedTo\<close> with it as target fails; both leave the whole
  component as it was, \<open>Effects\<close> included, so that no observer is notified and the
  exporter is not run.
\<close>

theorem malformed_square_rejected:
  "\<not> IsSquareValid (NormalizeSquare Square) \<Longrightarrow>
     SelectSquare Square c = (False, c)
     \<and> Notifications (snd (SelectSquare Square c)) = Notifications c
     \<and> (\<exists>e. TryMoveSelectedTo P Square c = (Inl e, c))
     \<and> Notifications (snd (TryMoveSelectedTo P Square c)) = Notifications c
     \<and> OracleCalls (snd (TryMoveSelectedTo P Square c)) = OracleCalls c"
  by (simp add: SelectSquare_def TryMoveSelectedTo_def Let_def)

theorem malformed_square_rejected_witness:
  "\<not> IsSquareValid (NormalizeSquare ''z9'')
   \<and> SelectSquare ''z9'' (SampleComponent ''e2'' [''e4''] [''e2e4'']) = (False, SampleComponent ''e2'' [''e4''] [''e2e4''])
   \<and> (\<exists>e. TryMoveSelectedTo FailingPlatform ''z9'' (SampleComponent ''e2'' [''e4''] [''e2e4''])
          = (Inl e, SampleComponent ''e2'' [''e4''] [''e2e4'']))"
  using malformed_square_rejected[OF invalid_z9, of "SampleComponent ''e2'' [''e4''] [''e2e4'']" FailingPlatform]
    invalid_z9
  by simp

text \<open>
  C8. As stated the claim fails. \<open>RefreshState\<close> stores the \<open>selected_square\<close> of the
  payload as it comes, and \<open>TryMoveSelectedTo\<close> lower-cases and trims the stored
  selection before it validates it. After a refresh whose payload selects \<open>E2\<close> between
  blanks, the stored selection is not a valid square, yet the move to e4 runs the
  exporter and succeeds.
\<close>

theorem TryMoveSelectedTo_unnormalised_selection:
  "SelectedSquare (CurrentState
      (Run [Refresh (SamplePlatform (Some ((''selected_square'', JString '' E2 '') # SampleDoc [''e2e4''])))]
         Constructed)) = '' E2 ''
   \<and> \<not> IsSquareValid (SelectedSquare (CurrentState
      (Run [Refresh (SamplePlatform (Some ((''selected_square'', JString '' E2 '') # SampleDoc [''e2e4''])))]
         Constructed)))
   \<and> fst (TryMoveSelectedTo (SamplePlatform (Some (SampleDoc []))) ''e4''
      (Run [Refresh (SamplePlatform (Some ((''selected_square'', JString '' E2 '') # SampleDoc [''e2e4''])))]
         Constructed)) = Inr ()
   \<and> fst (TryMoveSelectedTo (SamplePlatform (Some (SampleDoc []))) ''e4''
      (Run [Refresh (SamplePlatform (Some ((''selected_square'', JString '' E2 '') # SampleDoc [''e2e4''])))]
         Constructed)) \<noteq> Inl NoSelection
   \<and> OracleCalls (Run [Refresh (SamplePlatform (Some ((''selected_square'', JString '' E2 '') # SampleDoc [''e2e4''])))]
         Constructed) = 1
   \<and> OracleCalls (snd (TryMoveSelectedTo (SamplePlatform (Some (SampleDoc []))) ''e4''
      (Run [Refresh (SamplePlatform (Some ((''selected_square'', JString '' E2 '') # SampleDoc [''e2e4''])))]
         Constructed))) = 2
   \<and> MoveHistoryUci (snd (TryMoveSelectedTo (SamplePlatform (Some (SampleDoc []))) ''e4''
      (Run [Refresh (SamplePlatform (Some ((''selected_square'', JString '' E2 '') # SampleDoc [''e2e4''])))]
         Constructed))) = [''e2e4'']"
  by code_simp

text \<open>
  C8, amended. When \<open>SelectedSquare\<close> is empty or, normalised as the source does before it
  validates, not a valid square, \<open>TryMoveSelectedTo\<close> fails with \<open>NoSelection\<close> for every
  target and leaves the whole component as it was: the snapshot, the move history and
  \<open>Effects\<close>, so the exporter is not run.
\<close>

theorem TryMoveSelectedTo_no_selection:
  "SelectedSquare (CurrentState c) = []
     \<or> \<not> IsSquareValid (NormalizeSquare (SelectedSquare (CurrentState c))) \<Longrightarrow>
   TryMoveSelectedTo P TargetSquare c = (Inl NoSelection, c)
   \<and> OracleCalls (snd (TryMoveSelectedTo P TargetSquare c)) = OracleCalls c
   \<and> MoveHistoryUci (snd (TryMoveSelectedTo P TargetSquare c)) = MoveHistoryUci c"
  by (auto simp: TryMoveSelectedTo_def Let_def NormalizeSquare_def ToLower_def
        TrimStartAndEnd_def IsSquareValid_def)

theorem TryMoveSelectedTo_no_selection_witness:
  "SelectedSquare (CurrentState Constructed) = []
   \<and> TryMoveSelectedTo (SamplePlatform (Some (SampleDoc []))) ''e4'' Constructed = (Inl NoSelection, Constructed)
   \<and> \<not> IsSquareValid (NormalizeSquare (SelectedSquare (CurrentState (SampleComponent ''z9'' [] [''z9e4'']))))
   \<and> TryMoveSelectedTo (SamplePlatform (Some (SampleDoc []))) ''e4'' (SampleComponent ''z9'' [] [''z9e4''])
       = (Inl NoSelection, SampleComponent ''z9'' [] [''z9e4''])"
proof -
  let ?P = "SamplePlatform (Some (SampleDoc []))"
  have h: "SelectedSquare (CurrentState Constructed) = []"
    by (simp add: Constructed_def DefaultPayload_def)
  have g: "\<not> IsSquareValid (NormalizeSquare (SelectedSquare (CurrentState (SampleComponent ''z9'' [] [''z9e4'']))))"
    using invalid_z9 by simp
  from TryMoveSelectedTo_no_selection[OF disjI1, OF h, of ?P "''e4''"]
  have a: "TryMoveSelectedTo ?P ''e4'' Constructed = (Inl NoSelection, Constructed)"
    by (rule conjunct1)
  from TryMoveSelectedTo_no_selection[OF disjI2, OF g, of ?P "''e4''"]
  have b: "TryMoveSelectedTo ?P ''e4'' (SampleComponent ''z9'' [] [''z9e4''])
       = (Inl NoSelection, SampleComponent ''z9'' [] [''z9e4''])"
    by (rule conjunct1)
  from h a g b show ?thesis by (simp only: simp_thms)
qed

text \<open>
  C9. \<open>ResetMatch\<close> runs \<open>RefreshState\<close> on the component with an empty move history.
  The history is empty afterwards whatever \<open>RefreshState\<close> returns. When it fails
  with \<open>e\<close>, the result is what \<open>RefreshState\<close> left plus a warning carrying \<open>e\<close> in
  the log, with the snapshot unchanged; \<open>ResetMatch\<close> itself returns normally.
\<close>

theorem ResetMatch_clears_history:
  "MoveHistoryUci (ResetMatch P c) = []
   \<and> (\<forall>e. fst (RefreshState P (c\<lparr>MoveHistoryUci := []\<rparr>)) = Inl e \<longrightarrow>
        ResetMatch P c =
          (snd (RefreshState P (c\<lparr>MoveHistoryUci := []\<rparr>)))
            \<lparr>Effects := Effects (snd (RefreshState P (c\<lparr>MoveHistoryUci := []\<rparr>))) @ [LogWarning e]\<rparr>
        \<and> CurrentState (ResetMatch P c) = CurrentState c)
   \<and> (fst (RefreshState P (c\<lparr>MoveHistoryUci := []\<rparr>)) = Inr () \<longrightarrow>
        ResetMatch P c = snd (RefreshState P (c\<lparr>MoveHistoryUci := []\<rparr>)))"
proof -
  obtain r c2 where rc: "RefreshState P (c\<lparr>MoveHistoryUci := []\<rparr>) = (r, c2)"
    by (cases "RefreshState P (c\<lparr>MoveHistoryUci := []\<rparr>)")
  have h: "MoveHistoryUci c2 = []"
    using RefreshState_history[of P "c\<lparr>MoveHistoryUci := []\<rparr>"] by (simp add: rc)
  have s: "r = Inl e \<Longrightarrow> CurrentState c2 = CurrentState c" for e
    using RefreshState_Inl[of P "c\<lparr>MoveHistoryUci := []\<rparr>" e] by (simp add: rc)
  show ?thesis
    using h s by (cases r) (auto simp: ResetMatch_def Let_def rc)
qed

theorem ResetMatch_clears_history_witness:
  "fst (RefreshState FailingPlatform ((SampleComponent [] [] [])\<lparr>MoveHistoryUci := []\<rparr>))
      = Inl (ExporterFailed 1 ''no board'' [])
   \<and> MoveHistoryUci (ResetMatch FailingPlatform ((SampleComponent [] [] [])\<lparr>MoveHistoryUci := [''e2e4'']\<rparr>)) = []
   \<and> CurrentState (ResetMatch FailingPlatform ((SampleComponent [] [] [])\<lparr>MoveHistoryUci := [''e2e4'']\<rparr>))
       = CurrentState (SampleComponent [] [] [])
   \<and> fst (RefreshState (SamplePlatform (Some (SampleDoc [])))
         ((SampleComponent [] [] [])\<lparr>MoveHistoryUci := []\<rparr>)) = Inr ()
   \<and> MoveHistoryUci (ResetMatch (SamplePlatform (Some (SampleDoc [])))
         ((SampleComponent [] [] [])\<lparr>MoveHistoryUci := [''e2e4'']\<rparr>)) = []"
proof -
  let ?c = "(SampleComponent [] [] [])\<lparr>MoveHistoryUci := [''e2e4'']\<rparr>"
  have h: "fst (RefreshState FailingPlatform (?c\<lparr>MoveHistoryUci := []\<rparr>)) = Inl (ExporterFailed 1 ''no board'' [])"
    by (rule sample_fail_error)
  note t = ResetMatch_clears_history[of FailingPlatform ?c]
  from t have a: "MoveHistoryUci (ResetMatch FailingPlatform ?c) = []" by (rule conjunct1)
  from t h have b: "CurrentState (ResetMatch FailingPlatform ?c) = CurrentState ?c" by blast
  have c: "CurrentState ?c = CurrentState (SampleComponent [] [] [])" by simp
  have h': "fst (RefreshState FailingPlatform ((SampleComponent [] [] [])\<lparr>MoveHistoryUci := []\<rparr>))
      = Inl (ExporterFailed 1 ''no board'' [])" by (rule sample_fail_error)
  have k: "fst (RefreshState (SamplePlatform (Some (SampleDoc [])))
         ((SampleComponent [] [] [])\<lparr>MoveHistoryUci := []\<rparr>)) = Inr ()"
    by (simp add: RefreshState_ok_iff sample_ok)
  from ResetMatch_clears_history[of "SamplePlatform (Some (SampleDoc []))" ?c]
  have d: "MoveHistoryUci (ResetMatch (SamplePlatform (Some (SampleDoc []))) ?c) = []"
    by (rule conjunct1)
  from a b c h' k d show ?thesis by (simp only: simp_thms)
qed

text \<open>
  C10. \<open>SelectSquare\<close> leaves \<open>Fen\<close>, \<open>Turn\<close>, \<open>bIsGameOver\<close>, \<open>StatusText\<close>,
  \<open>ScoreText\<close>, \<open>LegalMovesUci\<close> and the move history as they were, for every input
  and every component, whatever it returns.
\<close>

theorem SelectSquare_frame:
  "Fen (CurrentState (snd (SelectSquare Square c))) = Fen (CurrentState c)
   \<and> Turn (CurrentState (snd (SelectSquare Square c))) = Turn (CurrentState c)
   \<and> bIsGameOver (CurrentState (snd (SelectSquare Square c))) = bIsGameOver (CurrentState c)
   \<and> StatusText (CurrentState (snd (SelectSquare Square c))) = StatusText (CurrentState c)
   \<and> ScoreText (CurrentState (snd (SelectSquare Square c))) = ScoreText (CurrentState c)
   \<and> LegalMovesUci (CurrentState (snd (SelectSquare Square c))) = LegalMovesUci (CurrentState c)
   \<and> MoveHistoryUci (snd (SelectSquare Square c)) = MoveHistoryUci c"
  by (simp add: SelectSquare_def Let_def)

end
